theory Spec2Isabelle
  imports Main
begin

section \<open>Shared data: errors and HTTP headers\<close>

text \<open>
  A Go \<open>error\<close> value is its message. A panic of the Go runtime is a value of its own:
  the functions that can panic return \<open>panic + 'a\<close>.
\<close>

datatype error = Error string

datatype panic = Panic string

text \<open>
  \<open>http.Header\<close> is \<open>map[string][]string\<close>. The map is indexed by the canonical form of
  the header name: \<open>Get\<close>, \<open>Set\<close> and \<open>Del\<close> canonicalise their argument, so the keys
  below stand for canonical names. \<open>Get\<close> returns the first value of the key and the
  empty string when the key is absent or has no value.
\<close>

type_synonym header = "string \<rightharpoonup> string list"

definition Get :: "header \<Rightarrow> string \<Rightarrow> string" where
  "Get h k = (case h k of None \<Rightarrow> [] | Some [] \<Rightarrow> [] | Some (v # _) \<Rightarrow> v)"

definition Set :: "header \<Rightarrow> string \<Rightarrow> string \<Rightarrow> header" where
  "Set h k v = h(k \<mapsto> [v])"

definition Del :: "header \<Rightarrow> string \<Rightarrow> header" where
  "Del h k = h(k := None)"

section \<open>proxy/utils/responsewriter.go\<close>

subsection \<open>Channels\<close>

text \<open>
  \<open>CloseNotify\<close> returns a \<open>\<leftarrow>chan bool\<close>. A channel is modelled by what a receiver can
  observe of it: the values waiting to be received (buffered, or offered by a blocked
  sender), whether it is closed, and how many references to it allow sending or
  closing. A receive-only reference allows neither.
\<close>

record chan =
  ch_queue :: "bool list"
  ch_closed :: bool
  ch_senders :: nat

text \<open>
  \<open>make(chan bool)\<close> returned at once as \<open>\<leftarrow>chan bool\<close>: an open, empty channel whose only
  reference is the receive-only one handed to the caller.
\<close>

definition make_chan :: chan where
  "make_chan = \<lparr>ch_queue = [], ch_closed = False, ch_senders = 0\<rparr>"

datatype chan_op = Send bool | Close | Recv

text \<open>
  One operation on a channel. \<open>None\<close>: the operation cannot happen (nobody holds a
  reference that allows it, or it would panic on a closed channel). Otherwise the new
  channel and the value delivered to the receiver, if any: a receive on an open, empty
  channel delivers nothing (the receiver keeps waiting), a receive on a closed, empty
  channel delivers the zero value \<open>false\<close>.
\<close>

fun chan_step :: "chan \<Rightarrow> chan_op \<Rightarrow> (chan \<times> bool option) option" where
  "chan_step c (Send v) =
     (if ch_senders c = 0 \<or> ch_closed c then None
      else Some (c\<lparr>ch_queue := ch_queue c @ [v]\<rparr>, None))"
| "chan_step c Close =
     (if ch_senders c = 0 \<or> ch_closed c then None
      else Some (c\<lparr>ch_closed := True\<rparr>, None))"
| "chan_step c Recv =
     (case ch_queue c of
        v # vs \<Rightarrow> Some (c\<lparr>ch_queue := vs\<rparr>, Some v)
      | [] \<Rightarrow> if ch_closed c then Some (c, Some False) else Some (c, None))"

text \<open>The values delivered along a run of operations; \<open>None\<close> when the run cannot happen.\<close>

fun delivered :: "chan \<Rightarrow> chan_op list \<Rightarrow> bool list option" where
  "delivered c [] = Some []"
| "delivered c (x # xs) =
     (case chan_step c x of
        None \<Rightarrow> None
      | Some (c', d) \<Rightarrow>
          (case delivered c' xs of
             None \<Rightarrow> None
           | Some ds \<Rightarrow> Some ((case d of None \<Rightarrow> [] | Some v \<Rightarrow> [v]) @ ds)))"

subsection \<open>The wrapped \<open>http.ResponseWriter\<close>\<close>

text \<open>
  The wrapped writer is any implementation of \<open>http.ResponseWriter\<close>. It is modelled by
  what the proxy writer can do to it and learn from it: its header map, the calls it
  has received (in order), what its \<open>Write\<close> returns, which of the optional interfaces
  \<open>http.Flusher\<close>, \<open>http.Hijacker\<close> and \<open>http.CloseNotifier\<close> it implements, and what its
  \<open>Hijack\<close> and \<open>CloseNotify\<close> return. Bytes are a \<open>string\<close>.
\<close>

datatype rw_call =
    CallWriteHeader int
  | CallWrite string
  | CallFlush
  | CallHijack
  | CallCloseNotify

text \<open>A hijacked connection: handles of the \<open>net.Conn\<close> and of the \<open>*bufio.ReadWriter\<close>.\<close>

type_synonym conn = "nat \<times> nat"

record response_writer =
  rw_header :: header
  rw_calls :: "rw_call list"
  rw_write_result :: "rw_call list \<Rightarrow> string \<Rightarrow> int \<times> error option"
  rw_is_flusher :: bool
  rw_is_hijacker :: bool
  rw_is_close_notifier :: bool
  rw_hijack_result :: "error + conn"
  rw_close_notify_chan :: chan

definition rw_called :: "response_writer \<Rightarrow> rw_call \<Rightarrow> response_writer" where
  "rw_called u c = u\<lparr>rw_calls := rw_calls u @ [c]\<rparr>"

subsection \<open>\<open>proxyResponseWriter\<close>\<close>

text \<open>
  What \<open>fmt.Println\<close> and \<open>debug.PrintStack\<close> put on the process's standard output and
  standard error.
\<close>

datatype printed = Println string int | PrintStack

text \<open>
  The struct. \<open>pw_flusher\<close> is \<open>True\<close> when the field \<open>flusher\<close> holds the wrapped writer
  as an \<open>http.Flusher\<close> and \<open>False\<close> when it is nil. \<open>pw_printed\<close> is not a field of the
  struct: it is what the methods have printed so far.
\<close>

record proxyResponseWriter =
  pw_w :: response_writer
  pw_status :: int
  pw_size :: int
  pw_flusher :: bool
  pw_done :: bool
  pw_printed :: "printed list"

text \<open>
  \<open>NewProxyResponseWriter\<close>: the field \<open>flusher\<close> is initialised with the type assertion
  \<open>w.(http.Flusher)\<close> in its one-result form, which panics when \<open>w\<close> does not implement
  \<open>http.Flusher\<close>.
\<close>

definition NewProxyResponseWriter :: "response_writer \<Rightarrow> panic + proxyResponseWriter" where
  "NewProxyResponseWriter u =
     (if rw_is_flusher u
      then Inr \<lparr>pw_w = u, pw_status = 0, pw_size = 0, pw_flusher = True,
                pw_done = False, pw_printed = []\<rparr>
      else Inl (Panic ''interface conversion: http.ResponseWriter is not http.Flusher: missing method Flush''))"

definition CloseNotify :: "proxyResponseWriter \<Rightarrow> proxyResponseWriter \<times> chan" where
  "CloseNotify p =
     (if rw_is_close_notifier (pw_w p)
      then (p\<lparr>pw_w := rw_called (pw_w p) CallCloseNotify\<rparr>, rw_close_notify_chan (pw_w p))
      else (p, make_chan))"

definition Header :: "proxyResponseWriter \<Rightarrow> header" where
  "Header p = rw_header (pw_w p)"

definition Hijack :: "proxyResponseWriter \<Rightarrow> proxyResponseWriter \<times> (error + conn)" where
  "Hijack p =
     (if \<not> rw_is_hijacker (pw_w p)
      then (p, Inl (Error ''response writer cannot hijack''))
      else (p\<lparr>pw_w := rw_called (pw_w p) CallHijack\<rparr>, rw_hijack_result (pw_w p)))"

definition WriteHeader :: "proxyResponseWriter \<Rightarrow> int \<Rightarrow> proxyResponseWriter" where
  "WriteHeader p s =
     (let p1 = p\<lparr>pw_printed := pw_printed p @
                  [Println ''proxy-response-writer-writing-status-code'' s, PrintStack]\<rparr>
      in if pw_done p1 then p1
         else
           let u = pw_w p1;
               u1 = (if rw_header u ''Content-Type'' = None
                     then u\<lparr>rw_header := (rw_header u)(''Content-Type'' \<mapsto> [])\<rparr>
                     else u);
               u2 = rw_called u1 (CallWriteHeader s)
           in p1\<lparr>pw_w := u2,
                 pw_status := (if pw_status p1 = 0 then s else pw_status p1)\<rparr>)"

definition Write :: "proxyResponseWriter \<Rightarrow> string \<Rightarrow> proxyResponseWriter \<times> int \<times> error option" where
  "Write p b =
     (if pw_done p then (p, 0, None)
      else
        let p1 = (if pw_status p = 0
                  then WriteHeader
                         (p\<lparr>pw_printed := pw_printed p @
                              [Println ''proxy-response-writer-in-WRITE'' (pw_status p)]\<rparr>)
                         200
                  else p);
            u = pw_w p1;
            r = rw_write_result u (rw_calls u) b
        in (p1\<lparr>pw_w := rw_called u (CallWrite b), pw_size := pw_size p1 + fst r\<rparr>,
            fst r, snd r))"

definition Done :: "proxyResponseWriter \<Rightarrow> proxyResponseWriter" where
  "Done p = p\<lparr>pw_done := True\<rparr>"

definition Flush :: "proxyResponseWriter \<Rightarrow> proxyResponseWriter" where
  "Flush p = (if pw_flusher p then p\<lparr>pw_w := rw_called (pw_w p) CallFlush\<rparr> else p)"

definition Status :: "proxyResponseWriter \<Rightarrow> int" where
  "Status p = pw_status p"

definition Size :: "proxyResponseWriter \<Rightarrow> int" where
  "Size p = pw_size p"

text \<open>A caller's sequence of method calls on one writer.\<close>

datatype pw_op =
    OpHeader
  | OpHijack
  | OpWrite string
  | OpWriteHeader int
  | OpDone
  | OpFlush
  | OpStatus
  | OpSize
  | OpCloseNotify

fun pw_step :: "proxyResponseWriter \<Rightarrow> pw_op \<Rightarrow> proxyResponseWriter" where
  "pw_step p OpHeader = p"
| "pw_step p OpHijack = fst (Hijack p)"
| "pw_step p (OpWrite b) = fst (Write p b)"
| "pw_step p (OpWriteHeader s) = WriteHeader p s"
| "pw_step p OpDone = Done p"
| "pw_step p OpFlush = Flush p"
| "pw_step p OpStatus = p"
| "pw_step p OpSize = p"
| "pw_step p OpCloseNotify = fst (CloseNotify p)"

fun pw_run :: "proxyResponseWriter \<Rightarrow> pw_op list \<Rightarrow> proxyResponseWriter" where
  "pw_run p [] = p"
| "pw_run p (x # xs) = pw_run (pw_step p x) xs"

text \<open>The calls of a log that are a \<open>Write\<close> or a \<open>WriteHeader\<close>.\<close>

fun is_write_call :: "rw_call \<Rightarrow> bool" where
  "is_write_call (CallWriteHeader s) = True"
| "is_write_call (CallWrite b) = True"
| "is_write_call c = False"

section \<open>The route service handler\<close>

subsection \<open>Collaborators\<close>

text \<open>
  The packages \<open>route\<close>, \<open>routeservice\<close> and \<open>registry\<close> are collaborators of the handler.
  Of each, the model has what the handler uses: of a \<open>*route.Pool\<close> the results of
  \<open>RouteServiceUrl()\<close> and \<open>IsEmpty()\<close>; of a parsed URL the fields \<open>Host\<close> and \<open>Path\<close>; of
  the \<open>RouteServiceRequest\<close> its five fields; of the configuration its four methods, as
  functions of their arguments; of the registry its \<open>Lookup\<close>, which returns a pool or
  nil.
\<close>

record Pool =
  pool_RouteServiceUrl :: string
  pool_IsEmpty :: bool

record url =
  url_Host :: string
  url_Path :: string

record RouteServiceRequest =
  URLString :: string
  ParsedUrl :: url
  Signature :: string
  Metadata :: string
  ForwardedURL :: string

record RouteServiceConfig =
  RouteServiceEnabled :: bool
  RouteServiceRecommendHttps :: bool
  ValidateSignature :: "header \<Rightarrow> string \<Rightarrow> error option"
  Request :: "string \<Rightarrow> string \<Rightarrow> error + RouteServiceRequest"

text \<open>
  The header names \<open>routeservice.RouteServiceSignature\<close>, \<open>RouteServiceMetadata\<close> and
  \<open>RouteServiceForwardedURL\<close> are constants of the package \<open>routeservice\<close>: they are
  parameters of the model.
\<close>

record routeservice_names =
  RouteServiceSignature :: string
  RouteServiceMetadata :: string
  RouteServiceForwardedURL :: string

subsection \<open>Requests and their context\<close>

text \<open>
  A context key is compared with its type: the handler reads and writes the route pool
  and the access log record under plain strings, and the route service URL under
  \<open>RouteServiceURLCtxKey\<close>, a constant of the type \<open>key\<close> of handlers/types.go.
\<close>

datatype ctx_key = StringKey string | Key string

definition ProxyResponseWriterCtxKey :: ctx_key where
  "ProxyResponseWriterCtxKey = Key ''ProxyResponseWriter''"

definition RouteServiceURLCtxKey :: ctx_key where
  "RouteServiceURLCtxKey = Key ''RouteServiceURL''"

definition InternalRouteServiceCtxKey :: ctx_key where
  "InternalRouteServiceCtxKey = Key ''InternalRouteService''"

text \<open>
  A context value is an \<open>interface{}\<close>: a \<open>*route.Pool\<close> (\<open>PoolVal None\<close> is the nil
  pointer of that type), a parsed URL, or a value of some other type. \<open>Value\<close> returns
  nil for an absent key: \<open>None\<close>.
\<close>

datatype ctx_val = PoolVal "Pool option" | URLVal url | OtherVal nat

type_synonym ctx = "ctx_key \<rightharpoonup> ctx_val"

record request =
  req_Header :: header
  req_Host :: string
  req_RequestURI :: string
  req_ctx :: ctx

text \<open>
  Modelled from the spec: \<open>hostWithoutPort\<close> is a helper of the package handlers that is
  not among the sources. The spec names its result "host-without-port": the request's
  host up to the colon that starts the port.
\<close>

definition hostWithoutPort :: "request \<Rightarrow> string" where
  "hostWithoutPort req = takeWhile (\<lambda>c. c \<noteq> CHR '':'') (req_Host req)"

subsection \<open>Effects\<close>

text \<open>
  What the handler does to the outside, in order: log entries, calls of the
  collaborators, writes on the response writer \<open>rw\<close> (\<open>http.Error\<close>, \<open>rw.Header().Set\<close>,
  and the helper \<open>writeStatus\<close> with its status, message and access log record), and the
  hand-over of the request to the route service proxy or to the continuation \<open>next\<close>.
\<close>

datatype event =
    LoggerError string error
  | LoggerInfo string
  | HttpError string int
  | RwHeaderSet string string
  | WriteStatus int string "ctx_val option"
  | CallValidateSignature header string
  | CallRequest string string
  | CallLookup string
  | RsReverseProxyServeHTTP request
  | Next request

definition hasBeenToRouteService :: "string \<Rightarrow> string \<Rightarrow> bool" where
  "hasBeenToRouteService rsUrl sigHeader = (sigHeader \<noteq> [] \<and> rsUrl \<noteq> [])"

text \<open>
  \<open>routeService.ServeHTTP\<close>. The type assertion \<open>rp.(*route.Pool)\<close> panics on a value
  of another type, and the method call on a nil pool dereferences it. The local
  \<open>routeServiceArgs\<close> is read only in the branch that assigns it from \<open>Request\<close>.
\<close>

definition ServeHTTP ::
  "routeservice_names \<Rightarrow> (string \<Rightarrow> Pool option) \<Rightarrow> RouteServiceConfig \<Rightarrow> request \<Rightarrow> panic + event list"
where
  "ServeHTTP names routeRegistry config req =
     (let alr = req_ctx req (StringKey ''AccessLogRecord'');
          rp = req_ctx req (StringKey ''RoutePool'')
      in case rp of
        None \<Rightarrow>
          Inr [LoggerError ''RoutePool not set on context'' (Error ''failed-to-access-RoutePool''),
               HttpError ''RoutePool not set on context'' 502]
      | Some (PoolVal None) \<Rightarrow>
          Inl (Panic ''invalid memory address or nil pointer dereference'')
      | Some (PoolVal (Some routePool)) \<Rightarrow>
          (let routeServiceUrl = pool_RouteServiceUrl routePool in
           if routeServiceUrl \<noteq> [] \<and> \<not> RouteServiceEnabled config then
             Inr [LoggerInfo ''route-service-unsupported'',
                  RwHeaderSet ''X-Cf-RouterError'' ''route_service_unsupported'',
                  WriteStatus 502 ''Support for route services is disabled.'' alr]
           else if routeServiceUrl \<noteq> [] then
             (let rsSignature = Get (req_Header req) (RouteServiceSignature names);
                  recommendedScheme =
                    (if RouteServiceRecommendHttps config then ''https'' else ''http'');
                  forwardedURLRaw =
                    recommendedScheme @ ''://'' @ hostWithoutPort req @ req_RequestURI req
              in if hasBeenToRouteService routeServiceUrl rsSignature then
                   (case ValidateSignature config (req_Header req) forwardedURLRaw of
                      Some err \<Rightarrow>
                        Inr [CallValidateSignature (req_Header req) forwardedURLRaw,
                             LoggerError ''signature-validation-failed'' err,
                             WriteStatus 400 ''Failed to validate Route Service Signature'' alr]
                    | None \<Rightarrow>
                        Inr [CallValidateSignature (req_Header req) forwardedURLRaw,
                             Next (req\<lparr>req_Header :=
                               Del (Del (Del (req_Header req) (RouteServiceSignature names))
                                      (RouteServiceMetadata names))
                                 (RouteServiceForwardedURL names)\<rparr>)])
                 else
                   (case Request config routeServiceUrl forwardedURLRaw of
                      Inl err \<Rightarrow>
                        Inr [CallRequest routeServiceUrl forwardedURLRaw,
                             LoggerError ''route-service-failed'' err,
                             WriteStatus 500 ''Route service request failed.'' alr]
                    | Inr routeServiceArgs \<Rightarrow>
                        (let h = Set (Set (Set (req_Header req)
                                   (RouteServiceSignature names) (Signature routeServiceArgs))
                                   (RouteServiceMetadata names) (Metadata routeServiceArgs))
                                   (RouteServiceForwardedURL names) (ForwardedURL routeServiceArgs);
                             req1 = req\<lparr>req_Header := h,
                                        req_ctx := (req_ctx req)(RouteServiceURLCtxKey \<mapsto>
                                          URLVal (ParsedUrl routeServiceArgs))\<rparr>;
                             routeURI = url_Host (ParsedUrl routeServiceArgs) @
                                          url_Path (ParsedUrl routeServiceArgs);
                             rsPool = routeRegistry routeURI;
                             req2 = req1\<lparr>req_ctx := (req_ctx req1)(StringKey ''RoutePool'' \<mapsto>
                                          PoolVal rsPool)\<rparr>
                         in if (case rsPool of None \<Rightarrow> True | Some q \<Rightarrow> pool_IsEmpty q) then
                              Inr [CallRequest routeServiceUrl forwardedURLRaw,
                                   CallLookup routeURI,
                                   RsReverseProxyServeHTTP req2]
                            else
                              Inr [CallRequest routeServiceUrl forwardedURLRaw,
                                   CallLookup routeURI,
                                   Next req2])))
           else Inr [Next req])
      | Some _ \<Rightarrow>
          Inl (Panic ''interface conversion: interface {} is not *route.Pool''))"

text \<open>The calls of one kind in a run of the handler, in order.\<close>

fun next_calls :: "event list \<Rightarrow> request list" where
  "next_calls [] = []"
| "next_calls (Next q # es) = q # next_calls es"
| "next_calls (e # es) = next_calls es"

fun proxy_calls :: "event list \<Rightarrow> request list" where
  "proxy_calls [] = []"
| "proxy_calls (RsReverseProxyServeHTTP q # es) = q # proxy_calls es"
| "proxy_calls (e # es) = proxy_calls es"

fun request_calls :: "event list \<Rightarrow> (string \<times> string) list" where
  "request_calls [] = []"
| "request_calls (CallRequest u f # es) = (u, f) # request_calls es"
| "request_calls (e # es) = request_calls es"

fun validate_calls :: "event list \<Rightarrow> (header \<times> string) list" where
  "validate_calls [] = []"
| "validate_calls (CallValidateSignature h f # es) = (h, f) # validate_calls es"
| "validate_calls (e # es) = validate_calls es"

fun lookup_calls :: "event list \<Rightarrow> string list" where
  "lookup_calls [] = []"
| "lookup_calls (CallLookup u # es) = u # lookup_calls es"
| "lookup_calls (e # es) = lookup_calls es"

text \<open>The events that write on the response writer.\<close>

fun writes_response :: "event \<Rightarrow> bool" where
  "writes_response (HttpError m c) = True"
| "writes_response (RwHeaderSet k v) = True"
| "writes_response (WriteStatus c m a) = True"
| "writes_response e = False"

subsection \<open>The response the client sees\<close>

record response =
  resp_Header :: header
  resp_status :: int
  resp_body :: string

text \<open>
  Modelled from the spec: \<open>writeStatus\<close> is a helper of the package handlers that is not
  among the sources. The spec says of each of its calls that the handler responds with
  the status and with the message as body.
\<close>

definition writeStatus :: "response \<Rightarrow> int \<Rightarrow> string \<Rightarrow> response" where
  "writeStatus rw code message = rw\<lparr>resp_status := code, resp_body := resp_body rw @ message\<rparr>"

text \<open>
  The effect of one event on the response: \<open>rw.Header().Set\<close> sets the header,
  \<open>writeStatus\<close> is as above, and \<open>http.Error\<close> of net/http replies with the code and
  with the message and a newline as plain text. The other events do not write.
\<close>

fun respond :: "response \<Rightarrow> event \<Rightarrow> response" where
  "respond rw (RwHeaderSet k v) = rw\<lparr>resp_Header := Set (resp_Header rw) k v\<rparr>"
| "respond rw (WriteStatus code message alr) = writeStatus rw code message"
| "respond rw (HttpError message code) =
     rw\<lparr>resp_Header := Set (Set (resp_Header rw) ''Content-Type'' ''text/plain; charset=utf-8'')
                          ''X-Content-Type-Options'' ''nosniff'',
        resp_status := code,
        resp_body := resp_body rw @ message @ [CHR 0x0A]\<rparr>"
| "respond rw e = rw"

definition response_after :: "response \<Rightarrow> event list \<Rightarrow> response" where
  "response_after rw es = foldl respond rw es"

text \<open>
  The events of a run. A run that panics does so before any effect, and has none.
\<close>

definition events :: "panic + event list \<Rightarrow> event list" where
  "events r = (case r of Inl _ \<Rightarrow> [] | Inr es \<Rightarrow> es)"

section \<open>Concrete inputs\<close>

subsection \<open>Response writers\<close>

text \<open>
  A wrapped writer with none of the optional interfaces, one with \<open>http.Flusher\<close> only,
  and one with all three; proxy writers around the last two, as
  \<open>NewProxyResponseWriter\<close> returns them.
\<close>

definition plain_writer :: response_writer where
  "plain_writer =
     \<lparr>rw_header = Map.empty, rw_calls = [],
      rw_write_result = (\<lambda>cs b. (int (length b), None)),
      rw_is_flusher = False, rw_is_hijacker = False, rw_is_close_notifier = False,
      rw_hijack_result = Inl (Error ''not a hijacker''),
      rw_close_notify_chan = make_chan\<rparr>"

definition flushing_writer :: response_writer where
  "flushing_writer = plain_writer\<lparr>rw_is_flusher := True\<rparr>"

definition full_writer :: response_writer where
  "full_writer =
     plain_writer\<lparr>rw_is_flusher := True, rw_is_hijacker := True,
                  rw_is_close_notifier := True, rw_hijack_result := Inr (1, 2),
                  rw_close_notify_chan :=
                    \<lparr>ch_queue = [True], ch_closed = False, ch_senders = 1\<rparr>\<rparr>"

definition flushing_proxy_writer :: proxyResponseWriter where
  "flushing_proxy_writer =
     \<lparr>pw_w = flushing_writer, pw_status = 0, pw_size = 0, pw_flusher = True,
      pw_done = False, pw_printed = []\<rparr>"

definition fresh_writer :: proxyResponseWriter where
  "fresh_writer =
     \<lparr>pw_w = full_writer, pw_status = 0, pw_size = 0, pw_flusher = True,
      pw_done = False, pw_printed = []\<rparr>"

subsection \<open>Requests and collaborators\<close>

text \<open>
  The scenario of the specification: request URI \<open>/foo\<close>, host \<open>app.example.com\<close>, a pool
  with the route service URL \<open>https://rs.example.com/rs\<close>, no signature header, a
  configuration that recommends HTTPS. The signing collaborator accepts the signature
  it issues and no other.
\<close>

definition example_names :: routeservice_names where
  "example_names =
     \<lparr>RouteServiceSignature = ''X-Cf-Proxy-Signature'',
      RouteServiceMetadata = ''X-Cf-Proxy-Metadata'',
      RouteServiceForwardedURL = ''X-Cf-Forwarded-Url''\<rparr>"

definition example_pool :: Pool where
  "example_pool = \<lparr>pool_RouteServiceUrl = ''https://rs.example.com/rs'', pool_IsEmpty = False\<rparr>"

definition example_request :: request where
  "example_request =
     \<lparr>req_Header = Map.empty, req_Host = ''app.example.com'', req_RequestURI = ''/foo'',
      req_ctx = [StringKey ''RoutePool'' \<mapsto> PoolVal (Some example_pool)]\<rparr>"

definition example_args :: RouteServiceRequest where
  "example_args =
     \<lparr>URLString = ''https://rs.example.com/rs'',
      ParsedUrl = \<lparr>url_Host = ''rs.example.com'', url_Path = ''/rs''\<rparr>,
      Signature = ''signature'', Metadata = ''metadata'',
      ForwardedURL = ''https://app.example.com/foo''\<rparr>"

definition example_validate :: "header \<Rightarrow> string \<Rightarrow> error option" where
  "example_validate h f =
     (if Get h ''X-Cf-Proxy-Signature'' = ''signature'' then None
      else Some (Error ''invalid signature''))"

definition example_sign :: "string \<Rightarrow> string \<Rightarrow> error + RouteServiceRequest" where
  "example_sign u f = Inr (example_args\<lparr>URLString := u, ForwardedURL := f\<rparr>)"

definition example_config :: RouteServiceConfig where
  "example_config =
     \<lparr>RouteServiceEnabled = True, RouteServiceRecommendHttps = True,
      ValidateSignature = example_validate, Request = example_sign\<rparr>"

definition disabled_config :: RouteServiceConfig where
  "disabled_config = example_config\<lparr>RouteServiceEnabled := False\<rparr>"

text \<open>A registry that hosts the route service itself, and one that knows no route.\<close>

definition example_registry :: "string \<Rightarrow> Pool option" where
  "example_registry u =
     (if u = ''rs.example.com/rs''
      then Some \<lparr>pool_RouteServiceUrl = [], pool_IsEmpty = False\<rparr> else None)"

definition empty_registry :: "string \<Rightarrow> Pool option" where
  "empty_registry u = None"

definition empty_response :: response where
  "empty_response = \<lparr>resp_Header = Map.empty, resp_status = 0, resp_body = []\<rparr>"

text \<open>
  The same request coming back from the route service with the issued signature, with
  a forged signature, and with a signature header whose value is empty; and a signed
  request for a pool without route service.
\<close>

definition signed_request :: request where
  "signed_request =
     example_request\<lparr>req_Header :=
       [''X-Cf-Proxy-Signature'' \<mapsto> [''signature''],
        ''X-Cf-Proxy-Metadata'' \<mapsto> [''metadata''],
        ''X-Cf-Forwarded-Url'' \<mapsto> [''https://app.example.com/foo''],
        ''Accept'' \<mapsto> [''text/html'']]\<rparr>"

definition forged_request :: request where
  "forged_request = example_request\<lparr>req_Header := [''X-Cf-Proxy-Signature'' \<mapsto> [''forged'']]\<rparr>"

definition blank_signature_request :: request where
  "blank_signature_request =
     example_request\<lparr>req_Header := [''X-Cf-Proxy-Signature'' \<mapsto> [[]]]\<rparr>"

definition passthrough_request :: request where
  "passthrough_request =
     signed_request\<lparr>req_ctx := [StringKey ''RoutePool'' \<mapsto>
        PoolVal (Some \<lparr>pool_RouteServiceUrl = [], pool_IsEmpty = False\<rparr>)]\<rparr>"

lemmas writer_examples =
  plain_writer_def flushing_writer_def full_writer_def flushing_proxy_writer_def
  fresh_writer_def make_chan_def

lemmas handler_examples =
  example_names_def example_pool_def example_request_def example_args_def
  example_validate_def example_sign_def example_config_def disabled_config_def
  example_registry_def empty_registry_def empty_response_def signed_request_def
  forged_request_def blank_signature_request_def passthrough_request_def

section \<open>The proxy response writer\<close>

subsection \<open>Construction and \<open>Flush\<close>\<close>

lemma NewProxyResponseWriter_returns:
  "(\<exists>p. NewProxyResponseWriter u = Inr p) \<longleftrightarrow> rw_is_flusher u"
  by (simp add: NewProxyResponseWriter_def)

lemma NewProxyResponseWriter_full: "NewProxyResponseWriter full_writer = Inr fresh_writer"
  by (simp add: NewProxyResponseWriter_def writer_examples)

lemma Flush_forwards:
  "Flush p =
     (if pw_flusher p
      then p\<lparr>pw_w := (pw_w p)\<lparr>rw_calls := rw_calls (pw_w p) @ [CallFlush]\<rparr>\<rparr>
      else p)"
  by (simp add: Flush_def rw_called_def)

text \<open>
  C4. The claim: a proxy response writer can be constructed around every response
  writer, and \<open>Flush\<close> is a no-op when the wrapped writer has no flush capability.
  \<open>Flush\<close> does guard against a nil \<open>flusher\<close>, but the constructor never leaves the
  field nil: around a writer that is not an \<open>http.Flusher\<close> the type assertion of the
  constructor panics, and no proxy writer is returned.
\<close>

theorem NewProxyResponseWriter_panics_without_flusher:
  "NewProxyResponseWriter plain_writer =
     Inl (Panic ''interface conversion: http.ResponseWriter is not http.Flusher: missing method Flush'')"
  by (simp add: NewProxyResponseWriter_def plain_writer_def)

subsection \<open>After \<open>Done\<close>\<close>

lemma WriteHeader_done:
  "pw_done p \<Longrightarrow>
     WriteHeader p s =
       p\<lparr>pw_printed := pw_printed p @
           [Println ''proxy-response-writer-writing-status-code'' s, PrintStack]\<rparr>"
  by (simp add: WriteHeader_def Let_def)

lemma Write_done: "pw_done p \<Longrightarrow> Write p b = (p, 0, None)"
  by (simp add: Write_def)

lemma pw_step_done:
  "pw_done p \<Longrightarrow>
     pw_done (pw_step p x) \<and> pw_status (pw_step p x) = pw_status p \<and>
     pw_size (pw_step p x) = pw_size p \<and>
     rw_header (pw_w (pw_step p x)) = rw_header (pw_w p) \<and>
     filter is_write_call (rw_calls (pw_w (pw_step p x))) =
       filter is_write_call (rw_calls (pw_w p))"
  by (cases x)
    (simp_all add: WriteHeader_done Write_done Done_def Flush_def Hijack_def
      CloseNotify_def rw_called_def)

text \<open>
  Once the flag is set, no sequence of calls changes the recorded status or size, and
  none adds a \<open>Write\<close> or \<open>WriteHeader\<close> to the calls the wrapped writer receives.
\<close>

lemma pw_run_done:
  "pw_done p \<Longrightarrow>
     pw_done (pw_run p xs) \<and> pw_status (pw_run p xs) = pw_status p \<and>
     pw_size (pw_run p xs) = pw_size p \<and>
     rw_header (pw_w (pw_run p xs)) = rw_header (pw_w p) \<and>
     filter is_write_call (rw_calls (pw_w (pw_run p xs))) =
       filter is_write_call (rw_calls (pw_w p))"
proof (induction xs arbitrary: p)
  case Nil
  then show ?case by simp
next
  case (Cons x xs)
  from Cons.prems have s: "pw_done (pw_step p x)"
    using pw_step_done by blast
  show ?case
    using Cons.IH [OF s] pw_step_done [OF Cons.prems, of x] by simp
qed

lemma Done_frozen:
  "Status (pw_run (Done p) xs) = Status p \<and> Size (pw_run (Done p) xs) = Size p \<and>
   filter is_write_call (rw_calls (pw_w (pw_run (Done p) xs))) =
     filter is_write_call (rw_calls (pw_w p))"
  using pw_run_done [of "Done p" xs] by (simp add: Done_def Status_def Size_def)

text \<open>
  C5. The claim: once \<open>Done\<close> has been called, status and size are frozen, no \<open>Write\<close> or
  \<open>WriteHeader\<close> reaches the wrapped writer, \<open>Write\<close> returns zero bytes and no error, and
  \<open>WriteHeader\<close> has no observable effect. All of it holds (\<open>Done_frozen\<close>, \<open>Write_done\<close>)
  but the last: \<open>WriteHeader\<close> prints the status code and a stack trace before it looks
  at the flag, where \<open>Write\<close> looks at the flag first. After \<open>Done\<close>, \<open>WriteHeader(404)\<close>
  leaves the writer as it was and has printed two items.
\<close>

theorem WriteHeader_after_Done_prints:
  "WriteHeader (Done fresh_writer) 404 =
     (Done fresh_writer)\<lparr>pw_printed :=
        [Println ''proxy-response-writer-writing-status-code'' 404, PrintStack]\<rparr> \<and>
   pw_printed (Done fresh_writer) = [] \<and>
   Write (Done fresh_writer) ''body'' = (Done fresh_writer, 0, None)"
  by (simp add: WriteHeader_def Write_def Done_def fresh_writer_def Let_def)

subsection \<open>The recorded status\<close>

lemma pw_step_status: "pw_status p \<noteq> 0 \<Longrightarrow> pw_status (pw_step p x) = pw_status p"
  by (cases x)
    (simp_all add: WriteHeader_def Write_def Done_def Flush_def Hijack_def CloseNotify_def
      rw_called_def Let_def)

lemma pw_run_status: "pw_status p \<noteq> 0 \<Longrightarrow> pw_status (pw_run p xs) = pw_status p"
  by (induction xs arbitrary: p) (simp_all add: pw_step_status)

lemma WriteHeader_forwards:
  "\<not> pw_done p \<Longrightarrow>
     rw_calls (pw_w (WriteHeader p s)) = rw_calls (pw_w p) @ [CallWriteHeader s]"
  by (simp add: WriteHeader_def Let_def rw_called_def)

lemma WriteHeader_first:
  "\<not> pw_done p \<Longrightarrow> pw_status p = 0 \<Longrightarrow> pw_status (WriteHeader p s) = s"
  by (simp add: WriteHeader_def Let_def)

lemma Write_first:
  "\<not> pw_done p \<Longrightarrow> pw_status p = 0 \<Longrightarrow> pw_status (fst (Write p b)) = 200"
  by (simp add: Write_def WriteHeader_def Let_def)

lemma Write_forwards:
  "\<not> pw_done p \<Longrightarrow> pw_status p = 0 \<Longrightarrow>
     rw_calls (pw_w (fst (Write p b))) =
       rw_calls (pw_w p) @ [CallWriteHeader 200, CallWrite b]"
  by (simp add: Write_def WriteHeader_def Let_def rw_called_def)

text \<open>
  C8, as amended. On a writer that is not done and has recorded no status: after a
  first \<open>WriteHeader(s)\<close> with \<open>s\<close> other than 0, \<open>Status()\<close> is \<open>s\<close> after every further
  sequence of calls; after a first \<open>Write\<close>, which performs \<open>WriteHeader(200)\<close> and then
  forwards the bytes, \<open>Status()\<close> is 200 after every further sequence of calls; and every
  \<open>WriteHeader\<close> on a writer that is not done is forwarded to the wrapped writer and
  leaves a recorded status other than 0 as it is.
\<close>

theorem first_status_recorded:
  assumes "\<not> pw_done p" and "pw_status p = 0"
  shows "(s \<noteq> 0 \<longrightarrow> Status (pw_run (WriteHeader p s) xs) = s) \<and>
         Status (pw_run (fst (Write p b)) xs) = 200 \<and>
         rw_calls (pw_w (fst (Write p b))) =
           rw_calls (pw_w p) @ [CallWriteHeader 200, CallWrite b] \<and>
         (\<forall>q t. \<not> pw_done q \<longrightarrow>
            rw_calls (pw_w (WriteHeader q t)) = rw_calls (pw_w q) @ [CallWriteHeader t] \<and>
            (pw_status q \<noteq> 0 \<longrightarrow> Status (WriteHeader q t) = Status q))"
proof -
  have a: "s \<noteq> 0 \<longrightarrow> Status (pw_run (WriteHeader p s) xs) = s"
    using assms by (simp add: Status_def pw_run_status WriteHeader_first)
  have "pw_status (fst (Write p b)) = 200"
    using assms by (rule Write_first)
  then have b: "Status (pw_run (fst (Write p b)) xs) = 200"
    by (simp add: Status_def pw_run_status)
  have c: "rw_calls (pw_w (fst (Write p b))) =
             rw_calls (pw_w p) @ [CallWriteHeader 200, CallWrite b]"
    using assms by (rule Write_forwards)
  have d: "\<forall>q t. \<not> pw_done q \<longrightarrow>
             rw_calls (pw_w (WriteHeader q t)) = rw_calls (pw_w q) @ [CallWriteHeader t] \<and>
             (pw_status q \<noteq> 0 \<longrightarrow> Status (WriteHeader q t) = Status q)"
    using pw_step_status [of _ "OpWriteHeader _"]
    by (simp add: WriteHeader_forwards Status_def)
  from a b c d show ?thesis by blast
qed

theorem first_status_recorded_witness:
  "Status (pw_run (WriteHeader fresh_writer 404)
     [OpWriteHeader 500, OpWrite ''body'', OpDone, OpWriteHeader 200]) = 404 \<and>
   Status (pw_run (fst (Write fresh_writer ''body''))
     [OpWriteHeader 500, OpWrite ''body'', OpDone, OpWriteHeader 200]) = 200 \<and>
   rw_calls (pw_w (fst (Write fresh_writer ''body''))) =
     [CallWriteHeader 200, CallWrite ''body''] \<and>
   rw_calls (pw_w (WriteHeader (WriteHeader fresh_writer 404) 500)) =
     [CallWriteHeader 404, CallWriteHeader 500] \<and>
   Status (WriteHeader (WriteHeader fresh_writer 404) 500) = 404"
proof -
  have h1: "\<not> pw_done fresh_writer" and h2: "pw_status fresh_writer = 0"
    by (simp_all add: fresh_writer_def)
  have n: "\<not> pw_done (WriteHeader fresh_writer 404)"
    and st: "pw_status (WriteHeader fresh_writer 404) \<noteq> 0"
    and cs: "rw_calls (pw_w fresh_writer) = []"
    and c1: "rw_calls (pw_w (WriteHeader fresh_writer 404)) = [CallWriteHeader 404]"
    and s1: "Status (WriteHeader fresh_writer 404) = 404"
    by (simp_all add: WriteHeader_def Status_def Let_def rw_called_def writer_examples)
  note t = first_status_recorded [OF h1 h2,
      of 404 "[OpWriteHeader 500, OpWrite ''body'', OpDone, OpWriteHeader 200]" "''body''"]
  from t n st cs c1 s1 show ?thesis by simp
qed

text \<open>
  C8, as claimed, fails for a first \<open>WriteHeader(0)\<close>: 0 is the value of a status that
  is not recorded, so a second \<open>WriteHeader(404)\<close> changes the recorded status.
\<close>

theorem first_status_zero_counterexample:
  "\<not> pw_done fresh_writer \<and> pw_status fresh_writer = 0 \<and>
   Status (pw_run fresh_writer [OpWriteHeader 0]) = 0 \<and>
   Status (pw_run fresh_writer [OpWriteHeader 0, OpWriteHeader 404]) = 404"
  by (simp add: fresh_writer_def WriteHeader_def Status_def Let_def)

subsection \<open>\<open>CloseNotify\<close>\<close>

lemma idle_chan_delivers_nothing:
  "ch_queue c = [] \<Longrightarrow> \<not> ch_closed c \<Longrightarrow> ch_senders c = 0 \<Longrightarrow>
     delivered c xs = Some ds \<Longrightarrow> ds = []"
proof (induction xs arbitrary: ds)
  case Nil
  then show ?case by simp
next
  case (Cons x xs)
  then show ?case
    by (cases x) (auto split: option.splits)
qed

lemma idle_chan_receives:
  "ch_queue c = [] \<Longrightarrow> \<not> ch_closed c \<Longrightarrow> ch_senders c = 0 \<Longrightarrow>
     delivered c (replicate n Recv) = Some []"
  by (induction n) simp_all

text \<open>
  C9. Around a writer that is not an \<open>http.CloseNotifier\<close>, \<open>CloseNotify\<close> returns a
  channel (never an error) and touches nothing; a receiver can wait on the channel any
  number of times and no run of channel operations delivers a value on it. Around an
  \<open>http.CloseNotifier\<close> it calls the wrapped writer's \<open>CloseNotify\<close> and returns its
  channel.
\<close>

theorem CloseNotify_never_emits:
  "(\<not> rw_is_close_notifier (pw_w p) \<longrightarrow>
      fst (CloseNotify p) = p \<and>
      (\<forall>n. delivered (snd (CloseNotify p)) (replicate n Recv) = Some []) \<and>
      (\<forall>xs ds. delivered (snd (CloseNotify p)) xs = Some ds \<longrightarrow> ds = [])) \<and>
   (rw_is_close_notifier (pw_w p) \<longrightarrow>
      snd (CloseNotify p) = rw_close_notify_chan (pw_w p) \<and>
      rw_calls (pw_w (fst (CloseNotify p))) = rw_calls (pw_w p) @ [CallCloseNotify])"
  using idle_chan_delivers_nothing [of make_chan] idle_chan_receives [of make_chan]
  by (auto simp add: CloseNotify_def make_chan_def rw_called_def)

theorem CloseNotify_never_emits_witness:
  "fst (CloseNotify flushing_proxy_writer) = flushing_proxy_writer \<and>
   delivered (snd (CloseNotify flushing_proxy_writer)) [Recv, Recv, Recv] = Some [] \<and>
   delivered (snd (CloseNotify flushing_proxy_writer)) [Recv, Send True, Recv] = None \<and>
   snd (CloseNotify fresh_writer) = \<lparr>ch_queue = [True], ch_closed = False, ch_senders = 1\<rparr> \<and>
   delivered (snd (CloseNotify fresh_writer)) [Recv, Recv] = Some [True] \<and>
   rw_calls (pw_w (fst (CloseNotify fresh_writer))) = [CallCloseNotify]"
proof -
  have h1: "\<not> rw_is_close_notifier (pw_w flushing_proxy_writer)"
    and h2: "rw_is_close_notifier (pw_w fresh_writer)"
    and h3: "rw_close_notify_chan (pw_w fresh_writer) =
               \<lparr>ch_queue = [True], ch_closed = False, ch_senders = 1\<rparr>"
    and h4: "rw_calls (pw_w fresh_writer) = []"
    by (simp_all add: writer_examples)
  have r: "[Recv, Recv, Recv] = replicate 3 Recv"
    by (simp add: numeral_3_eq_3)
  have a: "fst (CloseNotify flushing_proxy_writer) = flushing_proxy_writer"
    and b: "delivered (snd (CloseNotify flushing_proxy_writer)) [Recv, Recv, Recv] = Some []"
    using CloseNotify_never_emits [of flushing_proxy_writer] h1 unfolding r by blast+
  have c: "snd (CloseNotify fresh_writer) =
             \<lparr>ch_queue = [True], ch_closed = False, ch_senders = 1\<rparr>"
    and d: "rw_calls (pw_w (fst (CloseNotify fresh_writer))) = [CallCloseNotify]"
    using CloseNotify_never_emits [of fresh_writer] h2 h3 h4 by simp_all
  have e: "delivered (snd (CloseNotify flushing_proxy_writer)) [Recv, Send True, Recv] = None"
    by (simp add: CloseNotify_def writer_examples)
  have f: "delivered (snd (CloseNotify fresh_writer)) [Recv, Recv] = Some [True]"
    unfolding c by simp
  from a b c d e f show ?thesis by blast
qed

subsection \<open>\<open>Hijack\<close>\<close>

text \<open>
  C10. A successful \<open>Hijack\<close> changes no field of the proxy writer: the completion flag,
  the recorded status and the size are as before, and the wrapped writer has received
  the \<open>Hijack\<close> call and nothing else. If the writer was not done, a following
  \<open>WriteHeader\<close> or \<open>Write\<close> still reaches the wrapped writer; only after a separate
  \<open>Done\<close> do they not.
\<close>

theorem Hijack_keeps_state:
  assumes "Hijack p = (p', Inr cn)"
  shows "p' = p\<lparr>pw_w := (pw_w p)\<lparr>rw_calls := rw_calls (pw_w p) @ [CallHijack]\<rparr>\<rparr> \<and>
         pw_done p' = pw_done p \<and> pw_status p' = pw_status p \<and> pw_size p' = pw_size p \<and>
         (\<not> pw_done p \<longrightarrow>
            rw_calls (pw_w (WriteHeader p' s)) = rw_calls (pw_w p') @ [CallWriteHeader s] \<and>
            rw_calls (pw_w (fst (Write p' b))) =
              rw_calls (pw_w p') @
                (if pw_status p = 0 then [CallWriteHeader 200] else []) @ [CallWrite b]) \<and>
         rw_calls (pw_w (WriteHeader (Done p') s)) = rw_calls (pw_w p') \<and>
         rw_calls (pw_w (fst (Write (Done p') b))) = rw_calls (pw_w p')"
  using assms
  by (auto simp add: Hijack_def rw_called_def WriteHeader_def Write_def Done_def Let_def
      split: if_splits)

theorem Hijack_keeps_state_witness:
  "snd (Hijack fresh_writer) = Inr (1, 2) \<and>
   pw_done (fst (Hijack fresh_writer)) = False \<and>
   pw_status (fst (Hijack fresh_writer)) = 0 \<and>
   pw_size (fst (Hijack fresh_writer)) = 0 \<and>
   rw_calls (pw_w (fst (Hijack fresh_writer))) = [CallHijack] \<and>
   rw_calls (pw_w (WriteHeader (fst (Hijack fresh_writer)) 101)) =
     [CallHijack, CallWriteHeader 101] \<and>
   rw_calls (pw_w (fst (Write (fst (Hijack fresh_writer)) ''body''))) =
     [CallHijack, CallWriteHeader 200, CallWrite ''body''] \<and>
   rw_calls (pw_w (fst (Write (Done (fst (Hijack fresh_writer))) ''body''))) = [CallHijack]"
proof -
  have h: "Hijack fresh_writer = (fst (Hijack fresh_writer), Inr (1, 2))"
    by (simp add: Hijack_def writer_examples)
  have f: "\<not> pw_done fresh_writer" "pw_status fresh_writer = 0" "pw_size fresh_writer = 0"
    "rw_calls (pw_w fresh_writer) = []"
    by (simp_all add: writer_examples)
  have s: "snd (Hijack fresh_writer) = Inr (1, 2)"
    by (simp add: Hijack_def writer_examples)
  note t = Hijack_keeps_state [OF h, of 101 "''body''"]
  from t have c: "rw_calls (pw_w (fst (Hijack fresh_writer))) = [CallHijack]"
    by (simp add: f)
  from t [THEN conjunct2] f s c show ?thesis by simp
qed


section \<open>The route service handler\<close>

lemmas handler_defs =
  ServeHTTP_def Let_def hasBeenToRouteService_def hostWithoutPort_def events_def
  response_after_def writeStatus_def Get_def Set_def Del_def RouteServiceURLCtxKey_def

subsection \<open>Return leg\<close>

text \<open>
  C1, as amended. For every request whose route pool has a non-empty route service URL,
  with route services enabled: the handler takes the return leg (it calls
  \<open>ValidateSignature\<close> once, on the request's headers and the forwarded URL, and never
  \<open>Request\<close>) exactly when \<open>Get\<close> of the signature header is not empty, whatever the
  validation then says, and the outbound leg otherwise. On the return leg, if the
  validation fails the response is 400 and neither the continuation nor the route
  service proxy is invoked; if it succeeds the continuation is invoked once, with the
  request whose signature, metadata and forwarded-URL headers have been deleted, and
  nothing is written on the response.
\<close>

theorem return_leg:
  assumes "req_ctx req (StringKey ''RoutePool'') = Some (PoolVal (Some routePool))"
    and "pool_RouteServiceUrl routePool \<noteq> []"
    and "RouteServiceEnabled cfg"
    and "fwd = (if RouteServiceRecommendHttps cfg then ''https'' else ''http'') @ ''://'' @
                 hostWithoutPort req @ req_RequestURI req"
    and "sg = Get (req_Header req) (RouteServiceSignature names)"
  shows "\<exists>es. ServeHTTP names reg cfg req = Inr es \<and>
           (hasBeenToRouteService (pool_RouteServiceUrl routePool) sg \<longleftrightarrow> sg \<noteq> []) \<and>
           (validate_calls es = [(req_Header req, fwd)] \<and> request_calls es = [] \<longleftrightarrow> sg \<noteq> []) \<and>
           (validate_calls es = [] \<and> request_calls es = [(pool_RouteServiceUrl routePool, fwd)]
              \<longleftrightarrow> sg = []) \<and>
           (sg \<noteq> [] \<and> ValidateSignature cfg (req_Header req) fwd \<noteq> None \<longrightarrow>
              resp_status (response_after rw es) = 400 \<and>
              next_calls es = [] \<and> proxy_calls es = []) \<and>
           (sg \<noteq> [] \<and> ValidateSignature cfg (req_Header req) fwd = None \<longrightarrow>
              (\<exists>out. next_calls es = [out] \<and>
                 out = req\<lparr>req_Header :=
                         Del (Del (Del (req_Header req) (RouteServiceSignature names))
                                (RouteServiceMetadata names))
                           (RouteServiceForwardedURL names)\<rparr> \<and>
                 req_Header out (RouteServiceSignature names) = None \<and>
                 req_Header out (RouteServiceMetadata names) = None \<and>
                 req_Header out (RouteServiceForwardedURL names) = None) \<and>
              proxy_calls es = [] \<and> filter writes_response es = [])"
proof (cases "sg = []")
  case True
  with assms show ?thesis
    by (cases "Request cfg (pool_RouteServiceUrl routePool) fwd";
        cases "reg (url_Host (ParsedUrl (projr (Request cfg (pool_RouteServiceUrl routePool) fwd))) @
                    url_Path (ParsedUrl (projr (Request cfg (pool_RouteServiceUrl routePool) fwd))))")
      (simp_all add: ServeHTTP_def Let_def hasBeenToRouteService_def)
next
  case False
  with assms show ?thesis
    by (cases "ValidateSignature cfg (req_Header req) fwd")
      (simp_all add: ServeHTTP_def Let_def hasBeenToRouteService_def Del_def
        response_after_def writeStatus_def)
qed

theorem return_leg_witness:
  "resp_status (response_after empty_response
     (events (ServeHTTP example_names example_registry example_config forged_request))) = 400 \<and>
   next_calls (events
     (ServeHTTP example_names example_registry example_config forged_request)) = [] \<and>
   next_calls (events
     (ServeHTTP example_names example_registry example_config signed_request)) =
     [example_request\<lparr>req_Header := [''Accept'' \<mapsto> [''text/html'']]\<rparr>] \<and>
   validate_calls (events
     (ServeHTTP example_names example_registry example_config example_request)) = []"
proof -
  have p: "pool_RouteServiceUrl example_pool \<noteq> []"
    and e: "RouteServiceEnabled example_config"
    by (simp_all add: handler_examples)
  have c1: "req_ctx forged_request (StringKey ''RoutePool'') = Some (PoolVal (Some example_pool))"
    and c2: "req_ctx signed_request (StringKey ''RoutePool'') = Some (PoolVal (Some example_pool))"
    and c3: "req_ctx example_request (StringKey ''RoutePool'') = Some (PoolVal (Some example_pool))"
    by (simp_all add: handler_examples)
  have a: "resp_status (response_after empty_response
             (events (ServeHTTP example_names example_registry example_config forged_request))) = 400 \<and>
           next_calls (events
             (ServeHTTP example_names example_registry example_config forged_request)) = []"
    using return_leg [OF c1 p e refl refl, of example_names example_registry empty_response]
    by (auto simp add: events_def handler_examples Get_def hostWithoutPort_def)
  have h: "Del (Del (Del (req_Header signed_request) ''X-Cf-Proxy-Signature'')
             ''X-Cf-Proxy-Metadata'') ''X-Cf-Forwarded-Url'' = [''Accept'' \<mapsto> [''text/html'']]"
    by (rule ext) (simp add: Del_def handler_examples)
  have b: "next_calls (events
             (ServeHTTP example_names example_registry example_config signed_request)) =
             [example_request\<lparr>req_Header := [''Accept'' \<mapsto> [''text/html'']]\<rparr>]"
    using return_leg [OF c2 p e refl refl, of example_names example_registry empty_response] h
    by (auto simp add: events_def handler_examples Get_def hostWithoutPort_def)
  have c: "validate_calls (events
             (ServeHTTP example_names example_registry example_config example_request)) = []"
    using return_leg [OF c3 p e refl refl, of example_names example_registry empty_response]
    by (auto simp add: events_def handler_examples Get_def hostWithoutPort_def)
  from a b c show ?thesis by blast
qed

text \<open>
  C1, as claimed, fails in two ways. With route services disabled, a request with a
  signature that does not validate is answered 502, not 400, and nothing is validated.
  With route services enabled, a request whose signature header is present with an
  empty value is not taken as return leg: nothing is validated and the request is
  signed for the route service.
\<close>

theorem return_leg_counterexample:
  "pool_RouteServiceUrl example_pool \<noteq> [] \<and>
   req_ctx forged_request (StringKey ''RoutePool'') = Some (PoolVal (Some example_pool)) \<and>
   req_Header forged_request (RouteServiceSignature example_names) = Some [''forged''] \<and>
   ValidateSignature disabled_config (req_Header forged_request) ''https://app.example.com/foo''
     = Some (Error ''invalid signature'') \<and>
   resp_status (response_after empty_response
     (events (ServeHTTP example_names example_registry disabled_config forged_request))) = 502 \<and>
   validate_calls (events
     (ServeHTTP example_names example_registry disabled_config forged_request)) = [] \<and>
   RouteServiceEnabled example_config \<and>
   req_ctx blank_signature_request (StringKey ''RoutePool'') = Some (PoolVal (Some example_pool)) \<and>
   req_Header blank_signature_request (RouteServiceSignature example_names) = Some [[]] \<and>
   validate_calls (events
     (ServeHTTP example_names example_registry example_config blank_signature_request)) = [] \<and>
   request_calls (events
     (ServeHTTP example_names example_registry example_config blank_signature_request)) =
     [(''https://rs.example.com/rs'', ''https://app.example.com/foo'')]"
  by (simp add: handler_defs handler_examples)

subsection \<open>Outbound leg\<close>

text \<open>
  C2, as amended. For every request whose route pool has a non-empty route service
  URL, with route services enabled and no (or an empty) signature header, the handler
  calls the signing collaborator \<open>Request\<close> exactly once, with the route service URL and
  the forwarded URL scheme, \<open>://\<close>, host without port, request URI, where the scheme is
  \<open>https\<close> if the configuration recommends HTTPS and \<open>http\<close> otherwise; for request URI
  \<open>/foo\<close>, host \<open>app.example.com\<close> and HTTPS recommended, the forwarded URL is
  \<open>https://app.example.com/foo\<close>.
\<close>

theorem outbound_leg_signs_once:
  assumes "req_ctx req (StringKey ''RoutePool'') = Some (PoolVal (Some routePool))"
    and "pool_RouteServiceUrl routePool \<noteq> []"
    and "RouteServiceEnabled cfg"
    and "Get (req_Header req) (RouteServiceSignature names) = []"
  shows "\<exists>es. ServeHTTP names reg cfg req = Inr es \<and>
           request_calls es =
             [(pool_RouteServiceUrl routePool,
               (if RouteServiceRecommendHttps cfg then ''https'' else ''http'') @ ''://'' @
                 hostWithoutPort req @ req_RequestURI req)] \<and>
           (req_Host req = ''app.example.com'' \<and> req_RequestURI req = ''/foo'' \<and>
            RouteServiceRecommendHttps cfg \<longrightarrow>
              request_calls es = [(pool_RouteServiceUrl routePool, ''https://app.example.com/foo'')])"
  using assms
  by (auto simp add: ServeHTTP_def Let_def hasBeenToRouteService_def hostWithoutPort_def
      split: sum.splits option.splits)

theorem outbound_leg_signs_once_witness:
  "request_calls (events
     (ServeHTTP example_names example_registry example_config example_request)) =
     [(''https://rs.example.com/rs'', ''https://app.example.com/foo'')] \<and>
   request_calls (events
     (ServeHTTP example_names empty_registry
        (example_config\<lparr>RouteServiceRecommendHttps := False\<rparr>)
        (example_request\<lparr>req_Host := ''app.example.com:8080''\<rparr>))) =
     [(''https://rs.example.com/rs'', ''http://app.example.com/foo'')]"
proof -
  have p: "pool_RouteServiceUrl example_pool \<noteq> []"
    and e: "RouteServiceEnabled example_config"
    and e': "RouteServiceEnabled (example_config\<lparr>RouteServiceRecommendHttps := False\<rparr>)"
    and c: "req_ctx example_request (StringKey ''RoutePool'') = Some (PoolVal (Some example_pool))"
    and c': "req_ctx (example_request\<lparr>req_Host := ''app.example.com:8080''\<rparr>)
               (StringKey ''RoutePool'') = Some (PoolVal (Some example_pool))"
    and g: "Get (req_Header example_request) (RouteServiceSignature example_names) = []"
    and g': "Get (req_Header (example_request\<lparr>req_Host := ''app.example.com:8080''\<rparr>))
               (RouteServiceSignature example_names) = []"
    by (simp_all add: handler_examples Get_def)
  have a: "request_calls (events
             (ServeHTTP example_names example_registry example_config example_request)) =
             [(''https://rs.example.com/rs'', ''https://app.example.com/foo'')]"
    using outbound_leg_signs_once [OF c p e g, of example_registry]
    by (auto simp add: events_def handler_examples)
  have b: "request_calls (events
             (ServeHTTP example_names empty_registry
                (example_config\<lparr>RouteServiceRecommendHttps := False\<rparr>)
                (example_request\<lparr>req_Host := ''app.example.com:8080''\<rparr>))) =
             [(''https://rs.example.com/rs'', ''http://app.example.com/foo'')]"
    using outbound_leg_signs_once [OF c' p e' g', of empty_registry]
    by (auto simp add: events_def handler_examples hostWithoutPort_def)
  from a b show ?thesis by blast
qed

text \<open>
  C2, as claimed, fails with route services disabled: the request of the scenario is
  answered 502 and the signing collaborator is never called.
\<close>

theorem outbound_leg_counterexample:
  "pool_RouteServiceUrl example_pool \<noteq> [] \<and>
   req_ctx example_request (StringKey ''RoutePool'') = Some (PoolVal (Some example_pool)) \<and>
   req_Header example_request (RouteServiceSignature example_names) = None \<and>
   request_calls (events
     (ServeHTTP example_names example_registry disabled_config example_request)) = [] \<and>
   resp_status (response_after empty_response (events
     (ServeHTTP example_names example_registry disabled_config example_request))) = 502"
  by (simp add: handler_defs handler_examples)

text \<open>
  The signing collaborator is called only on the outbound leg: with a non-empty route
  service URL, route services enabled and no (or an empty) signature.
\<close>

lemma Request_called:
  assumes "ServeHTTP names reg cfg req = Inr es"
    and "CallRequest u f \<in> set es"
  shows "\<exists>routePool.
           req_ctx req (StringKey ''RoutePool'') = Some (PoolVal (Some routePool)) \<and>
           pool_RouteServiceUrl routePool \<noteq> [] \<and> RouteServiceEnabled cfg \<and>
           Get (req_Header req) (RouteServiceSignature names) = [] \<and>
           u = pool_RouteServiceUrl routePool \<and>
           f = (if RouteServiceRecommendHttps cfg then ''https'' else ''http'') @ ''://'' @
                 hostWithoutPort req @ req_RequestURI req"
  using assms
  by (auto simp add: ServeHTTP_def Let_def hasBeenToRouteService_def
      split: option.splits ctx_val.splits if_splits sum.splits)

text \<open>
  C3, as amended. For every request whose route pool has a non-empty route service
  URL and that has no (or an empty) signature, with route services enabled, and for
  which the signing collaborator succeeds on the route service URL and the forwarded
  URL: \<open>Request\<close> is called once; the outgoing request carries the signature, metadata
  and forwarded-URL headers of the returned parameters, and its context holds the
  parsed route service URL and, under the key of the route pool, the pool that the
  registry returns for parsed host followed by parsed path; the registry is looked up
  once and nothing is written on the response; and if that pool is nil or empty the
  route service proxy is invoked once with the outgoing request and the continuation
  never, otherwise the continuation is invoked once with it and the route service
  proxy never.
\<close>

theorem outbound_leg_success:
  assumes "req_ctx req (StringKey ''RoutePool'') = Some (PoolVal (Some routePool))"
    and "pool_RouteServiceUrl routePool \<noteq> []"
    and "RouteServiceEnabled cfg"
    and "Get (req_Header req) (RouteServiceSignature names) = []"
    and "Request cfg (pool_RouteServiceUrl routePool)
           ((if RouteServiceRecommendHttps cfg then ''https'' else ''http'') @ ''://'' @
              hostWithoutPort req @ req_RequestURI req) = Inr args"
    and "distinct [RouteServiceSignature names, RouteServiceMetadata names,
                   RouteServiceForwardedURL names]"
  shows "\<exists>es out. ServeHTTP names reg cfg req = Inr es \<and>
           request_calls es =
             [(pool_RouteServiceUrl routePool,
               (if RouteServiceRecommendHttps cfg then ''https'' else ''http'') @ ''://'' @
                 hostWithoutPort req @ req_RequestURI req)] \<and>
           out = req\<lparr>req_Header :=
                   Set (Set (Set (req_Header req)
                     (RouteServiceSignature names) (Signature args))
                     (RouteServiceMetadata names) (Metadata args))
                     (RouteServiceForwardedURL names) (ForwardedURL args),
                 req_ctx := (req_ctx req)
                   (RouteServiceURLCtxKey \<mapsto> URLVal (ParsedUrl args),
                    StringKey ''RoutePool'' \<mapsto>
                      PoolVal (reg (url_Host (ParsedUrl args) @ url_Path (ParsedUrl args))))\<rparr> \<and>
           Get (req_Header out) (RouteServiceSignature names) = Signature args \<and>
           Get (req_Header out) (RouteServiceMetadata names) = Metadata args \<and>
           Get (req_Header out) (RouteServiceForwardedURL names) = ForwardedURL args \<and>
           req_ctx out (StringKey ''RoutePool'') =
             Some (PoolVal (reg (url_Host (ParsedUrl args) @ url_Path (ParsedUrl args)))) \<and>
           req_ctx out RouteServiceURLCtxKey = Some (URLVal (ParsedUrl args)) \<and>
           lookup_calls es = [url_Host (ParsedUrl args) @ url_Path (ParsedUrl args)] \<and>
           filter writes_response es = [] \<and>
           (case reg (url_Host (ParsedUrl args) @ url_Path (ParsedUrl args)) of
              None \<Rightarrow> proxy_calls es = [out] \<and> next_calls es = []
            | Some q \<Rightarrow>
                if pool_IsEmpty q then proxy_calls es = [out] \<and> next_calls es = []
                else next_calls es = [out] \<and> proxy_calls es = [])"
proof (cases "reg (url_Host (ParsedUrl args) @ url_Path (ParsedUrl args))")
  case None
  with assms show ?thesis
    by (simp add: ServeHTTP_def Let_def hasBeenToRouteService_def Get_def Set_def
        RouteServiceURLCtxKey_def)
next
  case (Some q)
  with assms show ?thesis
    by (cases "pool_IsEmpty q")
      (simp_all add: ServeHTTP_def Let_def hasBeenToRouteService_def Get_def Set_def
        RouteServiceURLCtxKey_def)
qed

theorem outbound_leg_success_witness:
  "length (next_calls (events
     (ServeHTTP example_names example_registry example_config example_request))) = 1 \<and>
   proxy_calls (events
     (ServeHTTP example_names example_registry example_config example_request)) = [] \<and>
   length (proxy_calls (events
     (ServeHTTP example_names empty_registry example_config example_request))) = 1 \<and>
   next_calls (events
     (ServeHTTP example_names empty_registry example_config example_request)) = [] \<and>
   map (\<lambda>q. Get (req_Header q) ''X-Cf-Proxy-Signature'') (next_calls (events
     (ServeHTTP example_names example_registry example_config example_request))) =
     [''signature''] \<and>
   map (\<lambda>q. req_ctx q (StringKey ''RoutePool'')) (proxy_calls (events
     (ServeHTTP example_names empty_registry example_config example_request))) =
     [Some (PoolVal None)]"
proof -
  have p: "pool_RouteServiceUrl example_pool \<noteq> []"
    and e: "RouteServiceEnabled example_config"
    and c: "req_ctx example_request (StringKey ''RoutePool'') = Some (PoolVal (Some example_pool))"
    and g: "Get (req_Header example_request) (RouteServiceSignature example_names) = []"
    and r: "Request example_config (pool_RouteServiceUrl example_pool)
              ((if RouteServiceRecommendHttps example_config then ''https'' else ''http'') @
                 ''://'' @ hostWithoutPort example_request @ req_RequestURI example_request) =
              Inr example_args"
    and d: "distinct [RouteServiceSignature example_names, RouteServiceMetadata example_names,
              RouteServiceForwardedURL example_names]"
    by (simp_all add: handler_examples Get_def hostWithoutPort_def)
  have n: "RouteServiceSignature example_names = ''X-Cf-Proxy-Signature''"
    and u: "url_Host (ParsedUrl example_args) @ url_Path (ParsedUrl example_args) =
              ''rs.example.com/rs''"
    and sg: "Signature example_args = ''signature''"
    by (simp_all add: handler_examples)
  have x1: "example_registry ''rs.example.com/rs'' =
              Some \<lparr>pool_RouteServiceUrl = [], pool_IsEmpty = False\<rparr>"
    and x2: "empty_registry ''rs.example.com/rs'' = None"
    by (simp_all add: handler_examples)
  let ?uri = "url_Host (ParsedUrl example_args) @ url_Path (ParsedUrl example_args)"
  from outbound_leg_success [OF c p e g r d, of example_registry]
  obtain es out where
    a1: "ServeHTTP example_names example_registry example_config example_request = Inr es"
    and a2: "Get (req_Header out) (RouteServiceSignature example_names) =
               Signature example_args"
    and a3: "case example_registry ?uri of
               None \<Rightarrow> proxy_calls es = [out] \<and> next_calls es = []
             | Some q \<Rightarrow>
                 if pool_IsEmpty q then proxy_calls es = [out] \<and> next_calls es = []
                 else next_calls es = [out] \<and> proxy_calls es = []"
    by blast
  from a3 have a4: "next_calls es = [out]" "proxy_calls es = []"
    unfolding u x1 by simp_all
  from outbound_leg_success [OF c p e g r d, of empty_registry]
  obtain es' out' where
    b1: "ServeHTTP example_names empty_registry example_config example_request = Inr es'"
    and b2: "req_ctx out' (StringKey ''RoutePool'') = Some (PoolVal (empty_registry ?uri))"
    and b3: "case empty_registry ?uri of
               None \<Rightarrow> proxy_calls es' = [out'] \<and> next_calls es' = []
             | Some q \<Rightarrow>
                 if pool_IsEmpty q then proxy_calls es' = [out'] \<and> next_calls es' = []
                 else next_calls es' = [out'] \<and> proxy_calls es' = []"
    by blast
  from b3 have b4: "proxy_calls es' = [out']" "next_calls es' = []"
    unfolding u x2 by simp_all
  note a = a1 a2 [unfolded n sg] a4
  note b = b1 b2 [unfolded u x2] b4
  from a b show ?thesis by (simp add: events_def)
qed

text \<open>
  C3, as claimed, fails with route services disabled: for the request of the scenario,
  which has a route service URL and no signature and for which the signing collaborator
  would succeed, the handler answers 502, signs nothing, and invokes neither the route
  service proxy nor the continuation.
\<close>

theorem outbound_leg_success_counterexample:
  "req_ctx example_request (StringKey ''RoutePool'') = Some (PoolVal (Some example_pool)) \<and>
   pool_RouteServiceUrl example_pool = ''https://rs.example.com/rs'' \<and>
   req_Header example_request (RouteServiceSignature example_names) = None \<and>
   Request disabled_config ''https://rs.example.com/rs'' ''https://app.example.com/foo'' =
     Inr example_args \<and>
   request_calls (events
     (ServeHTTP example_names example_registry disabled_config example_request)) = [] \<and>
   proxy_calls (events
     (ServeHTTP example_names example_registry disabled_config example_request)) = [] \<and>
   next_calls (events
     (ServeHTTP example_names example_registry disabled_config example_request)) = [] \<and>
   proxy_calls (events
     (ServeHTTP example_names empty_registry disabled_config example_request)) = [] \<and>
   next_calls (events
     (ServeHTTP example_names empty_registry disabled_config example_request)) = []"
  by (simp add: handler_defs handler_examples)

subsection \<open>Route services disabled\<close>

text \<open>
  C6. For every request whose route pool has a non-empty route service URL while route
  services are disabled, the handler sets the response header \<open>X-Cf-RouterError\<close> to
  \<open>route_service_unsupported\<close> and calls \<open>writeStatus\<close> with 502 and the body
  \<open>Support for route services is disabled.\<close>: the response has that status, header and
  body, and neither the continuation nor the route service proxy is invoked.
\<close>

theorem disabled_responds_502:
  assumes "req_ctx req (StringKey ''RoutePool'') = Some (PoolVal (Some routePool))"
    and "pool_RouteServiceUrl routePool \<noteq> []"
    and "\<not> RouteServiceEnabled cfg"
  shows "\<exists>es. ServeHTTP names reg cfg req = Inr es \<and>
           filter writes_response es =
             [RwHeaderSet ''X-Cf-RouterError'' ''route_service_unsupported'',
              WriteStatus 502 ''Support for route services is disabled.''
                (req_ctx req (StringKey ''AccessLogRecord''))] \<and>
           resp_status (response_after rw es) = 502 \<and>
           Get (resp_Header (response_after rw es)) ''X-Cf-RouterError'' =
             ''route_service_unsupported'' \<and>
           resp_body (response_after rw es) =
             resp_body rw @ ''Support for route services is disabled.'' \<and>
           next_calls es = [] \<and> proxy_calls es = []"
  using assms
  by (simp add: ServeHTTP_def response_after_def writeStatus_def Set_def Get_def)

theorem disabled_responds_502_witness:
  "resp_status (response_after empty_response (events
     (ServeHTTP example_names example_registry disabled_config signed_request))) = 502 \<and>
   Get (resp_Header (response_after empty_response (events
     (ServeHTTP example_names example_registry disabled_config signed_request))))
     ''X-Cf-RouterError'' = ''route_service_unsupported'' \<and>
   resp_body (response_after empty_response (events
     (ServeHTTP example_names example_registry disabled_config signed_request))) =
     ''Support for route services is disabled.'' \<and>
   next_calls (events
     (ServeHTTP example_names example_registry disabled_config signed_request)) = []"
proof -
  have p: "pool_RouteServiceUrl example_pool \<noteq> []"
    and e: "\<not> RouteServiceEnabled disabled_config"
    and c: "req_ctx signed_request (StringKey ''RoutePool'') = Some (PoolVal (Some example_pool))"
    and b: "resp_body empty_response = []"
    by (simp_all add: handler_examples)
  from disabled_responds_502 [OF c p e, of example_names example_registry empty_response]
  obtain es where
    "ServeHTTP example_names example_registry disabled_config signed_request = Inr es"
    "resp_status (response_after empty_response es) = 502"
    "Get (resp_Header (response_after empty_response es)) ''X-Cf-RouterError'' =
       ''route_service_unsupported''"
    "resp_body (response_after empty_response es) = ''Support for route services is disabled.''"
    "next_calls es = []"
    unfolding b by auto
  then show ?thesis by (simp add: events_def)
qed

subsection \<open>No route service\<close>

text \<open>
  C7. For every request whose route pool has an empty route service URL, whatever the
  configuration and the request's headers, the handler does one thing: it invokes the
  continuation, once, with the request as it received it; it writes nothing on the
  response and does not invoke the route service proxy.
\<close>

theorem empty_url_passthrough:
  assumes "req_ctx req (StringKey ''RoutePool'') = Some (PoolVal (Some routePool))"
    and "pool_RouteServiceUrl routePool = []"
  shows "\<exists>es. ServeHTTP names reg cfg req = Inr es \<and> es = [Next req] \<and>
           next_calls es = [req] \<and> proxy_calls es = [] \<and>
           filter writes_response es = [] \<and> response_after rw es = rw"
  using assms by (simp add: ServeHTTP_def response_after_def)

theorem empty_url_passthrough_witness:
  "ServeHTTP example_names example_registry disabled_config passthrough_request =
     Inr [Next passthrough_request] \<and>
   ServeHTTP example_names example_registry example_config passthrough_request =
     Inr [Next passthrough_request] \<and>
   req_Header passthrough_request ''X-Cf-Proxy-Signature'' = Some [''signature'']"
proof -
  have c: "req_ctx passthrough_request (StringKey ''RoutePool'') =
             Some (PoolVal (Some \<lparr>pool_RouteServiceUrl = [], pool_IsEmpty = False\<rparr>))"
    and p: "pool_RouteServiceUrl \<lparr>pool_RouteServiceUrl = [], pool_IsEmpty = False\<rparr> = []"
    and h: "req_Header passthrough_request ''X-Cf-Proxy-Signature'' = Some [''signature'']"
    by (simp_all add: handler_examples)
  from empty_url_passthrough [OF c p, of example_names example_registry disabled_config]
    empty_url_passthrough [OF c p, of example_names example_registry example_config] h
  show ?thesis by simp
qed


end
